theory Spec2Isabelle
  imports Main "HOL-Library.Sublist"
begin

section \<open>Strings\<close>

text \<open>
  Python strings are modelled as \<^typ>\<open>string\<close>. The paths and URLs of this program are
  compared with ASCII literals only, so \<open>str.lower\<close> is modelled on the ASCII letters;
  every other character is left as it is.
\<close>

definition ascii_uppercase :: string where
  "ascii_uppercase = ''ABCDEFGHIJKLMNOPQRSTUVWXYZ''"

definition ascii_lowercase :: string where
  "ascii_lowercase = ''abcdefghijklmnopqrstuvwxyz''"

definition lower_char :: "char \<Rightarrow> char" where
  "lower_char c = (case map_of (zip ascii_uppercase ascii_lowercase) c of Some l \<Rightarrow> l | None \<Rightarrow> c)"

text \<open>\<open>s.lower()\<close>\<close>

definition lower :: "string \<Rightarrow> string" where
  "lower s = map lower_char s"

text \<open>\<open>s.endswith(ext)\<close>, \<open>s.startswith(p)\<close> and \<open>p in s\<close>\<close>

definition endswith :: "string \<Rightarrow> string \<Rightarrow> bool" where
  "endswith s ext = suffix ext s"

definition startswith :: "string \<Rightarrow> string \<Rightarrow> bool" where
  "startswith s p = prefix p s"

fun str_in :: "string \<Rightarrow> string \<Rightarrow> bool" where
  "str_in p [] = (p = [])"
| "str_in p (c # cs) = (prefix p (c # cs) \<or> str_in p cs)"

text \<open>
  Two characters are the same letter when they are equal or are the upper-case and the
  lower-case form of one ASCII letter; two strings are case variants of each other when
  they agree position by position up to that.
\<close>

definition same_letter :: "char \<Rightarrow> char \<Rightarrow> bool" where
  "same_letter a b =
     (a = b \<or> (a, b) \<in> set (zip ascii_uppercase ascii_lowercase)
            \<or> (b, a) \<in> set (zip ascii_uppercase ascii_lowercase))"

definition case_variant :: "string \<Rightarrow> string \<Rightarrow> bool" where
  "case_variant s t = list_all2 same_letter s t"


section \<open>File classification (config.py)\<close>

definition markdown_extensions :: "string list" where
  "markdown_extensions = [''.md'', ''.mdx'']"

definition is_markdown_file :: "string \<Rightarrow> bool" where
  "is_markdown_file filename = (\<exists>ext \<in> set markdown_extensions. endswith (lower filename) ext)"

definition code_extensions :: "string list" where
  "code_extensions =
    [''.py'', ''.js'', ''.jsx'', ''.ts'', ''.tsx'', ''.java'', ''.c'', ''.cpp'', ''.cs'', ''.go'', ''.rb'', ''.php'',
     ''.swift'', ''.kt'', ''.rs'', ''.scala'', ''.sh'', ''.bash'', ''.ps1'', ''.pl'', ''.lua'', ''.r'',
     ''.html'', ''.htm'', ''.css'', ''.scss'', ''.sass'', ''.less'',
     ''.json'', ''.xml'', ''.yaml'', ''.yml'',
     ''.gradle'', ''.sbt'', ''.make'', ''.cmake'', ''.toml'', ''.ini'', ''.conf'',
     ''.class'', ''.jar'', ''.war'', ''.dll'', ''.exe'', ''.so'', ''.o'', ''.obj'', ''.pyc'',
     ''.dockerfile'', ''.containerfile'',
     ''.sql'', ''.db'', ''.sqlite'']"

definition is_code_file :: "string \<Rightarrow> bool" where
  "is_code_file filename = (\<exists>ext \<in> set code_extensions. endswith (lower filename) ext)"

definition binary_extensions :: "string list" where
  "binary_extensions =
    [''.bin'', ''.dat'', ''.exe'', ''.dll'', ''.so'', ''.dylib'', ''.class'', ''.jar'', ''.war'', ''.ear'',
     ''.zip'', ''.tar'', ''.gz'', ''.bz2'', ''.xz'', ''.7z'', ''.rar'',
     ''.jpg'', ''.jpeg'', ''.png'', ''.gif'', ''.bmp'', ''.tiff'', ''.webp'', ''.ico'', ''.svg'',
     ''.mp3'', ''.mp4'', ''.wav'', ''.flac'', ''.ogg'', ''.avi'', ''.mov'', ''.mkv'', ''.webm'',
     ''.pdf'', ''.doc'', ''.docx'', ''.xls'', ''.xlsx'', ''.ppt'', ''.pptx'',
     ''.db'', ''.sqlite'', ''.mdb'',
     ''.pyc'', ''.pyo'', ''.o'', ''.obj'', ''.a'', ''.lib'',
     ''.lock'', ''.yarn-integrity'', ''package-lock.json'', ''yarn.lock'',
     ''.cache'', ''.DS_Store'', ''Thumbs.db'']"

definition generated_patterns :: "string list" where
  "generated_patterns =
    [''node_modules'', ''__pycache__'', ''.git'', ''.svn'', ''.hg'', ''.idea'', ''.vscode'',
     ''build'', ''dist'', ''target'', ''out'', ''bin'', ''obj'']"

text \<open>The two local variables of \<open>is_binary_or_generated_file\<close>, and the function.\<close>

definition is_binary :: "string \<Rightarrow> bool" where
  "is_binary filename = (\<exists>ext \<in> set binary_extensions. endswith (lower filename) ext)"

definition is_generated :: "string \<Rightarrow> bool" where
  "is_generated filename = (\<exists>pattern \<in> set generated_patterns. str_in pattern filename)"

definition is_binary_or_generated_file :: "string \<Rightarrow> bool" where
  "is_binary_or_generated_file filename = (is_binary filename \<or> is_generated filename)"


section \<open>Regular expressions (the part of \<open>re\<close> that \<open>run\<close> uses)\<close>

text \<open>
  The URL is taken apart with
  \<^verbatim>\<open>re.search(r'github\.com/([^/]+)/([^/]+)(?:/tree/([^/]+)/(.+))?', self.repo_url)\<close>.
  The pattern is kept as data and matched the way a backtracking engine does it:
  \<open>matches r s g\<close> lists, in the order in which the engine tries them, the ways in which
  \<open>r\<close> matches a prefix of \<open>s\<close>, each as the rest of the input and the groups captured so
  far. A greedy \<open>+\<close> offers the longest run first, a greedy \<open>?\<close> offers its body before
  the empty match. \<open>.\<close> matches every character but a line feed.
\<close>

datatype cls = NotSlash | Dot

fun cls_ok :: "cls \<Rightarrow> char \<Rightarrow> bool" where
  "cls_ok NotSlash c = (c \<noteq> CHR ''/'')"
| "cls_ok Dot c = (c \<noteq> CHR 0x0A)"

datatype regex =
    Lit string
  | Many1 cls
  | Seq regex regex
  | Opt regex
  | Group nat regex

type_synonym groups = "nat \<rightharpoonup> string"

fun plus_matches :: "(char \<Rightarrow> bool) \<Rightarrow> string \<Rightarrow> string list" where
  "plus_matches p [] = []"
| "plus_matches p (c # cs) = (if p c then plus_matches p cs @ [cs] else [])"

fun matches :: "regex \<Rightarrow> string \<Rightarrow> groups \<Rightarrow> (string \<times> groups) list" where
  "matches (Lit l) s g = (if prefix l s then [(drop (length l) s, g)] else [])"
| "matches (Many1 k) s g = map (\<lambda>s'. (s', g)) (plus_matches (cls_ok k) s)"
| "matches (Seq a b) s g = concat (map (\<lambda>(s', g'). matches b s' g') (matches a s g))"
| "matches (Opt a) s g = matches a s g @ [(s, g)]"
| "matches (Group n a) s g =
     map (\<lambda>(s', g'). (s', g'(n \<mapsto> take (length s - length s') s))) (matches a s g)"

text \<open>The first way to match at the start of \<open>s\<close>, if there is one.\<close>

definition match_at :: "regex \<Rightarrow> string \<Rightarrow> groups option" where
  "match_at r s = (case matches r s Map.empty of [] \<Rightarrow> None | (s', g) # _ \<Rightarrow> Some g)"

text \<open>\<open>re.search\<close>: the match at the leftmost position that has one.\<close>

fun re_search :: "regex \<Rightarrow> string \<Rightarrow> groups option" where
  "re_search r [] = match_at r []"
| "re_search r (c # cs) = (case match_at r (c # cs) of Some g \<Rightarrow> Some g | None \<Rightarrow> re_search r cs)"


section \<open>Parsing the repository URL (docs_grabber.py, \<open>run\<close>)\<close>

definition tree_part :: regex where
  "tree_part = Seq (Lit ''/tree/'') (Seq (Group 3 (Many1 NotSlash)) (Seq (Lit ''/'') (Group 4 (Many1 Dot))))"

definition github_url :: regex where
  "github_url =
     Seq (Lit ''github.com/'') (Seq (Group 1 (Many1 NotSlash)) (Seq (Lit ''/'') (Seq (Group 2 (Many1 NotSlash))
       (Opt tree_part))))"

record url_parts =
  owner :: "string option"
  repo_name :: "string option"
  branch :: string
  subdir_path :: string

text \<open>\<open>x if x else d\<close> for a group \<open>x\<close>, which is \<open>None\<close> when it took no part in the match.\<close>

definition or_else :: "string option \<Rightarrow> string \<Rightarrow> string" where
  "or_else x d = (case x of None \<Rightarrow> d | Some v \<Rightarrow> if v = [] then d else v)"

text \<open>
  Lines 42 to 51 of \<open>run\<close>. The result \<open>None\<close> is the branch that emits
  \<open>finished_signal(False, "Invalid GitHub URL format", "")\<close> and returns.
\<close>

definition parse_url :: "string \<Rightarrow> url_parts option" where
  "parse_url repo_url =
     (case re_search github_url repo_url of
        None \<Rightarrow> None
      | Some repo_path_match \<Rightarrow>
          Some \<lparr>owner = repo_path_match 1,
                repo_name = repo_path_match 2,
                branch = or_else (repo_path_match 3) ''main'',
                subdir_path = or_else (repo_path_match 4) []\<rparr>)"


section \<open>Path strings (the part of \<open>os.path\<close> that the program uses)\<close>

text \<open>\<open>s.split(d)\<close> for a separator of one character.\<close>

fun split_on :: "char \<Rightarrow> string \<Rightarrow> string list" where
  "split_on d [] = [[]]"
| "split_on d (c # cs) =
     (if c = d then [] # split_on d cs
      else (case split_on d cs of [] \<Rightarrow> [[c]] | w # ws \<Rightarrow> (c # w) # ws))"

text \<open>\<open>sep.join(xs)\<close>\<close>

fun join_with :: "string \<Rightarrow> string list \<Rightarrow> string" where
  "join_with sep [] = []"
| "join_with sep [x] = x"
| "join_with sep (x # y # ys) = x @ sep @ join_with sep (y # ys)"

text \<open>
  The file a path string names: its components, read from the root directory, with empty
  components and \<open>.\<close> dropped and \<open>..\<close> stepping back, as \<open>os.path.abspath\<close> does it.
  The working directory is taken to be the root; the program works with absolute paths.
\<close>

definition path_step :: "string list \<Rightarrow> string \<Rightarrow> string list" where
  "path_step acc c = (if c = [] \<or> c = ''.'' then acc else if c = ''..'' then butlast acc else acc @ [c])"

definition path_of :: "string \<Rightarrow> string list" where
  "path_of s = foldl path_step [] (split_on CHR ''/'' s)"

text \<open>\<open>os.path.join(a, b)\<close>\<close>

definition os_path_join :: "string \<Rightarrow> string \<Rightarrow> string" where
  "os_path_join a b =
     (if startswith b ''/'' then b
      else if a = [] \<or> endswith a ''/'' then a @ b
      else a @ ''/'' @ b)"

text \<open>\<open>s.rstrip('/')\<close>, \<open>os.path.dirname(p)\<close> and \<open>os.path.basename(p)\<close>\<close>

definition rstrip_slash :: "string \<Rightarrow> string" where
  "rstrip_slash s = rev (dropWhile (\<lambda>c. c = CHR ''/'') (rev s))"

definition dirname :: "string \<Rightarrow> string" where
  "dirname p =
     (let head = rev (dropWhile (\<lambda>c. c \<noteq> CHR ''/'') (rev p))
      in if head \<noteq> [] \<and> (\<exists>c \<in> set head. c \<noteq> CHR ''/'') then rstrip_slash head else head)"

definition basename :: "string \<Rightarrow> string" where
  "basename p = rev (takeWhile (\<lambda>c. c \<noteq> CHR ''/'') (rev p))"

text \<open>\<open>os.path.relpath(path, start)\<close>\<close>

fun common_prefix_length :: "string list \<Rightarrow> string list \<Rightarrow> nat" where
  "common_prefix_length (x # xs) (y # ys) = (if x = y then Suc (common_prefix_length xs ys) else 0)"
| "common_prefix_length _ _ = 0"

definition relpath :: "string \<Rightarrow> string \<Rightarrow> string" where
  "relpath path start =
     (let start_list = path_of start;
          path_list = path_of path;
          i = common_prefix_length start_list path_list;
          rel_list = replicate (length start_list - i) ''..'' @ drop i path_list
      in if rel_list = [] then ''.'' else join_with ''/'' rel_list)"


section \<open>The file system\<close>

text \<open>
  A file is its bytes and whether it can be opened for reading; a directory lists its
  entries by name, in the order in which \<open>os.listdir\<close> and \<open>os.walk\<close> report them. An
  entry name is not empty, is neither \<open>.\<close> nor \<open>..\<close> and has no \<open>/\<close>, and a directory
  lists a name once (\<open>well_formed\<close>). There are no symbolic links, every directory can be listed and
  written to. A path is the list of names that lead from the root to a node.
\<close>

datatype node = File bool string | Dir "(string \<times> node) list"

type_synonym path = "string list"

datatype exn =
    FileNotFoundError
  | FileExistsError
  | NotADirectoryError
  | IsADirectoryError
  | PermissionError
  | Error "exn list"

definition proper_name :: "string \<Rightarrow> bool" where
  "proper_name n = (n \<noteq> [] \<and> n \<noteq> ''.'' \<and> n \<noteq> ''..'' \<and> CHR ''/'' \<notin> set n)"

fun well_formed :: "node \<Rightarrow> bool" and well_formed_entries :: "(string \<times> node) list \<Rightarrow> bool" where
  "well_formed (File r c) = True"
| "well_formed (Dir es) = well_formed_entries es"
| "well_formed_entries [] = True"
| "well_formed_entries ((n, c) # es) = (proper_name n \<and> n \<notin> fst ` set es \<and> well_formed c \<and> well_formed_entries es)"

fun lookup :: "node \<Rightarrow> path \<Rightarrow> node option" where
  "lookup n [] = Some n"
| "lookup (File r c) (x # xs) = None"
| "lookup (Dir es) (x # xs) = (case map_of es x of None \<Rightarrow> None | Some c \<Rightarrow> lookup c xs)"

text \<open>What \<open>os.stat\<close> tells about a path: nothing there, a file, or a directory.\<close>

datatype kind = KFile bool string | KDir

fun kind_of :: "node \<Rightarrow> kind" where
  "kind_of (File r c) = KFile r c"
| "kind_of (Dir es) = KDir"

definition stat :: "node \<Rightarrow> path \<Rightarrow> kind option" where
  "stat fs p = map_option kind_of (lookup fs p)"

definition path_exists :: "node \<Rightarrow> string \<Rightarrow> bool" where
  "path_exists fs s = (stat fs (path_of s) \<noteq> None)"

definition isdir :: "node \<Rightarrow> string \<Rightarrow> bool" where
  "isdir fs s = (stat fs (path_of s) = Some KDir)"

definition isfile :: "node \<Rightarrow> string \<Rightarrow> bool" where
  "isfile fs s = (case stat fs (path_of s) of Some (KFile r c) \<Rightarrow> True | _ \<Rightarrow> False)"

fun set_entry :: "string \<Rightarrow> node \<Rightarrow> (string \<times> node) list \<Rightarrow> (string \<times> node) list" where
  "set_entry x n [] = [(x, n)]"
| "set_entry x n ((y, c) # es) = (if x = y then (y, n) # es else (y, c) # set_entry x n es)"

definition del_entry :: "string \<Rightarrow> (string \<times> node) list \<Rightarrow> (string \<times> node) list" where
  "del_entry x es = filter (\<lambda>(y, c). y \<noteq> x) es"

text \<open>
  \<open>at_path p f fs\<close> changes the directory that holds the last name of \<open>p\<close>: \<open>f\<close> gets the
  entries of that directory and the name, and answers with the new entries or an error.
  Every directory on the way must be there.
\<close>

fun at_path :: "path \<Rightarrow> ((string \<times> node) list \<Rightarrow> string \<Rightarrow> exn + (string \<times> node) list) \<Rightarrow> node \<Rightarrow> exn + node" where
  "at_path [] f n = Inl PermissionError"
| "at_path (x # xs) f (File r c) = Inl NotADirectoryError"
| "at_path [x] f (Dir es) = (case f es x of Inl e \<Rightarrow> Inl e | Inr es' \<Rightarrow> Inr (Dir es'))"
| "at_path (x # y # ys) f (Dir es) =
     (case map_of es x of
        None \<Rightarrow> Inl FileNotFoundError
      | Some c \<Rightarrow>
          (case at_path (y # ys) f c of
             Inl e \<Rightarrow> Inl e
           | Inr c' \<Rightarrow> Inr (Dir (set_entry x c' es))))"

text \<open>\<open>os.mkdir(s)\<close>, as \<open>tempfile.mkdtemp\<close> uses it\<close>

definition mkdir :: "string \<Rightarrow> node \<Rightarrow> exn + node" where
  "mkdir s fs =
     at_path (path_of s)
       (\<lambda>es x. case map_of es x of None \<Rightarrow> Inr (set_entry x (Dir []) es) | Some c \<Rightarrow> Inl FileExistsError) fs"

text \<open>\<open>os.makedirs(s, exist_ok=True)\<close>\<close>

fun makedirs_at :: "path \<Rightarrow> node \<Rightarrow> exn + node" where
  "makedirs_at [] (Dir es) = Inr (Dir es)"
| "makedirs_at [] (File r c) = Inl FileExistsError"
| "makedirs_at (x # xs) (File r c) = Inl NotADirectoryError"
| "makedirs_at (x # xs) (Dir es) =
     (case makedirs_at xs (case map_of es x of None \<Rightarrow> Dir [] | Some c \<Rightarrow> c) of
        Inl e \<Rightarrow> Inl e
      | Inr c' \<Rightarrow> Inr (Dir (set_entry x c' es)))"

definition makedirs :: "string \<Rightarrow> node \<Rightarrow> exn + node" where
  "makedirs s fs = makedirs_at (path_of s) fs"

text \<open>\<open>open(s, 'rb').read()\<close>\<close>

definition read_file :: "node \<Rightarrow> string \<Rightarrow> exn + string" where
  "read_file fs s =
     (case stat fs (path_of s) of
        None \<Rightarrow> Inl FileNotFoundError
      | Some KDir \<Rightarrow> Inl IsADirectoryError
      | Some (KFile r c) \<Rightarrow> if r then Inr c else Inl PermissionError)"

text \<open>\<open>open(s, 'wb').write(c)\<close>, and the same in text mode\<close>

definition write_file :: "string \<Rightarrow> string \<Rightarrow> node \<Rightarrow> exn + node" where
  "write_file s c fs =
     at_path (path_of s)
       (\<lambda>es x. case map_of es x of Some (Dir ds) \<Rightarrow> Inl IsADirectoryError
                                  | _ \<Rightarrow> Inr (set_entry x (File True c) es)) fs"

text \<open>\<open>shutil.rmtree(s)\<close>\<close>

definition rmtree :: "string \<Rightarrow> node \<Rightarrow> exn + node" where
  "rmtree s fs =
     at_path (path_of s)
       (\<lambda>es x. case map_of es x of None \<Rightarrow> Inl FileNotFoundError
                                  | Some (File r c) \<Rightarrow> Inl NotADirectoryError
                                  | Some (Dir ds) \<Rightarrow> Inr (del_entry x es)) fs"

text \<open>\<open>os.listdir(s)\<close>\<close>

definition listdir :: "node \<Rightarrow> string \<Rightarrow> exn + string list" where
  "listdir fs s =
     (case lookup fs (path_of s) of
        None \<Rightarrow> Inl FileNotFoundError
      | Some (File r c) \<Rightarrow> Inl NotADirectoryError
      | Some (Dir es) \<Rightarrow> Inr (map fst es))"

text \<open>
  \<open>os.walk(top)\<close>, from the top down: a directory yields its path string, the names of its
  directories and the names of its other entries, then each of its directories is walked
  under \<open>os.path.join(top, name)\<close>. A \<open>top\<close> that cannot be listed yields nothing.
\<close>

definition dir_names :: "(string \<times> node) list \<Rightarrow> string list" where
  "dir_names es = map fst (filter (\<lambda>(n, c). kind_of c = KDir) es)"

definition file_names :: "(string \<times> node) list \<Rightarrow> string list" where
  "file_names es = map fst (filter (\<lambda>(n, c). kind_of c \<noteq> KDir) es)"

fun walk :: "string \<Rightarrow> node \<Rightarrow> (string \<times> string list \<times> string list) list"
  and walk_entries :: "string \<Rightarrow> (string \<times> node) list \<Rightarrow> (string \<times> string list \<times> string list) list" where
  "walk top_dir (File r c) = []"
| "walk top_dir (Dir es) = (top_dir, dir_names es, file_names es) # walk_entries top_dir es"
| "walk_entries top_dir [] = []"
| "walk_entries top_dir ((n, c) # es) = walk (os_path_join top_dir n) c @ walk_entries top_dir es"

definition os_walk :: "node \<Rightarrow> string \<Rightarrow> (string \<times> string list \<times> string list) list" where
  "os_walk fs top_dir = (case lookup fs (path_of top_dir) of None \<Rightarrow> [] | Some n \<Rightarrow> walk top_dir n)"


section \<open>The state of a run\<close>

text \<open>
  The state is the file system, the lines printed so far and the Qt signals emitted so far,
  oldest first. An operation that can raise gives back the exception or its result,
  together with the state it leaves behind.
\<close>

datatype signal = Progress int | Status string | Finished bool string string

record world =
  disk :: node
  stdout :: "string list"
  signals :: "signal list"

definition emit :: "signal \<Rightarrow> world \<Rightarrow> world" where
  "emit s w = w\<lparr>signals := signals w @ [s]\<rparr>"

definition print :: "string \<Rightarrow> world \<Rightarrow> world" where
  "print s w = w\<lparr>stdout := stdout w @ [s]\<rparr>"

definition and_then :: "(exn + 'a) \<times> world \<Rightarrow> ('a \<Rightarrow> world \<Rightarrow> (exn + 'b) \<times> world) \<Rightarrow> (exn + 'b) \<times> world" where
  "and_then r k = (case r of (Inl e, w) \<Rightarrow> (Inl e, w) | (Inr x, w) \<Rightarrow> k x w)"

definition on_fs :: "(node \<Rightarrow> exn + node) \<Rightarrow> world \<Rightarrow> (exn + unit) \<times> world" where
  "on_fs f w = (case f (disk w) of Inl e \<Rightarrow> (Inl e, w) | Inr fs' \<Rightarrow> (Inr (), w\<lparr>disk := fs'\<rparr>))"

text \<open>\<open>str(e)\<close>: the text of the error, without the file name that the system adds.\<close>

fun str_exn :: "exn \<Rightarrow> string" where
  "str_exn FileNotFoundError = ''[Errno 2] No such file or directory''"
| "str_exn FileExistsError = ''[Errno 17] File exists''"
| "str_exn NotADirectoryError = ''[Errno 20] Not a directory''"
| "str_exn IsADirectoryError = ''[Errno 21] Is a directory''"
| "str_exn PermissionError = ''[Errno 13] Permission denied''"
| "str_exn (Error es) = ''shutil.Error''"


section \<open>Copying under a filter (config.py, \<open>filter_files\<close>)\<close>

text \<open>Lines 157 to 164: the decision for one file.\<close>

definition should_copy :: "string \<Rightarrow> string \<Rightarrow> string \<Rightarrow> bool" where
  "should_copy filter_mode file source_file =
     (if filter_mode = ''markdown_only'' then is_markdown_file file
      else if filter_mode = ''exclude_code'' then \<not> is_code_file file
      else if filter_mode = ''light_filter'' then \<not> is_binary_or_generated_file source_file
      else True)"

text \<open>
  Lines 167 to 174: the \<open>try\<close> block that copies one file. What was done before an
  exception stays done; the exception is printed and the loop goes on.
\<close>

definition try_copy :: "string \<Rightarrow> string \<Rightarrow> world \<times> string list \<Rightarrow> world \<times> string list" where
  "try_copy source_file target_file st =
     (case st of (w, copied_files) \<Rightarrow>
        (case makedirs (dirname target_file) (disk w) of
           Inl e \<Rightarrow> (print (''Error copying '' @ source_file @ '': '' @ str_exn e) w, copied_files)
         | Inr fs1 \<Rightarrow>
             if isfile fs1 source_file
             then (case read_file fs1 source_file of
                     Inl e \<Rightarrow> (print (''Error copying '' @ source_file @ '': '' @ str_exn e) (w\<lparr>disk := fs1\<rparr>),
                               copied_files)
                   | Inr content \<Rightarrow>
                       (case write_file target_file content fs1 of
                          Inl e \<Rightarrow> (print (''Error copying '' @ source_file @ '': '' @ str_exn e) (w\<lparr>disk := fs1\<rparr>),
                                    copied_files)
                        | Inr fs2 \<Rightarrow> (w\<lparr>disk := fs2\<rparr>, copied_files @ [target_file])))
             else (w\<lparr>disk := fs1\<rparr>, copied_files)))"

text \<open>Lines 152 to 174: the loop over the files of one directory.\<close>

fun copy_files :: "string \<Rightarrow> string \<Rightarrow> string \<Rightarrow> string list \<Rightarrow> world \<times> string list \<Rightarrow> world \<times> string list" where
  "copy_files filter_mode root target_path [] st = st"
| "copy_files filter_mode root target_path (file # files) st =
     (let source_file = os_path_join root file;
          target_file = os_path_join target_path file
      in copy_files filter_mode root target_path files
           (if should_copy filter_mode file source_file then try_copy source_file target_file st else st))"

text \<open>
  Lines 144 to 174: the loop over the walk. \<open>os.makedirs\<close> of line 150 stands outside
  the \<open>try\<close> block, so its exception leaves the function.
\<close>

fun walk_loop :: "string \<Rightarrow> string \<Rightarrow> string \<Rightarrow> (string \<times> string list \<times> string list) list
    \<Rightarrow> world \<times> string list \<Rightarrow> (exn + string list) \<times> world" where
  "walk_loop source_dir target_dir filter_mode [] st = (Inr (snd st), fst st)"
| "walk_loop source_dir target_dir filter_mode ((root, dirs, files) # rest) st =
     (let rel_path = relpath root source_dir;
          target_path = os_path_join target_dir rel_path
      in case makedirs target_path (disk (fst st)) of
           Inl e \<Rightarrow> (Inl e, fst st)
         | Inr fs1 \<Rightarrow>
             walk_loop source_dir target_dir filter_mode rest
               (copy_files filter_mode root target_path files ((fst st)\<lparr>disk := fs1\<rparr>, snd st)))"

text \<open>
  The walk lists the source tree as it stands when \<open>filter_files\<close> is called; the files are
  read, and the destination is written, in the file system as it is at that moment of the loop.
\<close>

definition filter_files :: "string \<Rightarrow> string \<Rightarrow> string \<Rightarrow> world \<Rightarrow> (exn + string list) \<times> world" where
  "filter_files source_dir target_dir filter_mode w =
     walk_loop source_dir target_dir filter_mode (os_walk (disk w) source_dir) (w, [])"


section \<open>Copying everything (the part of \<open>shutil\<close> that \<open>run\<close> uses)\<close>

text \<open>
  \<open>shutil.copytree(src, dst, ignore=shutil.ignore_patterns('.git'))\<close> makes \<open>dst\<close>, which
  must not exist, and copies into it every entry of \<open>src\<close> whose name is not \<open>.git\<close>,
  directories in the same way. A file that cannot be copied is noted and the copy goes on;
  at the end the notes, if there are any, are raised as one \<open>shutil.Error\<close>.
\<close>

fun copy_node :: "node \<Rightarrow> node option \<times> exn list"
  and copy_entries :: "(string \<times> node) list \<Rightarrow> (string \<times> node) list \<times> exn list" where
  "copy_node (File r c) = (if r then (Some (File True c), []) else (None, [PermissionError]))"
| "copy_node (Dir ds) = (case copy_entries ds of (ds', errors) \<Rightarrow> (Some (Dir ds'), errors))"
| "copy_entries [] = ([], [])"
| "copy_entries ((n, c) # es) =
     (if n = ''.git'' then copy_entries es
      else (case copy_node c of (c', errors) \<Rightarrow>
             (case copy_entries es of (es', errors') \<Rightarrow>
                ((case c' of None \<Rightarrow> es' | Some d \<Rightarrow> (n, d) # es'), errors @ errors'))))"

definition put_tree :: "string \<Rightarrow> node \<Rightarrow> node \<Rightarrow> exn + node" where
  "put_tree s n = at_path (path_of s) (\<lambda>es x. Inr (set_entry x n es))"

definition copytree :: "string \<Rightarrow> string \<Rightarrow> world \<Rightarrow> (exn + unit) \<times> world" where
  "copytree src dst w =
     (case lookup (disk w) (path_of src) of
        None \<Rightarrow> (Inl FileNotFoundError, w)
      | Some (File r c) \<Rightarrow> (Inl NotADirectoryError, w)
      | Some (Dir es) \<Rightarrow>
          if path_exists (disk w) dst then (Inl FileExistsError, w)
          else (case copy_entries es of (es', errors) \<Rightarrow>
                 (case makedirs dst (disk w) of
                    Inl e \<Rightarrow> (Inl e, w)
                  | Inr fs1 \<Rightarrow>
                      (case put_tree dst (Dir es') fs1 of
                         Inl e \<Rightarrow> (Inl e, w\<lparr>disk := fs1\<rparr>)
                       | Inr fs2 \<Rightarrow> (if errors = [] then Inr () else Inl (Error errors), w\<lparr>disk := fs2\<rparr>)))))"

text \<open>\<open>shutil.copy2(src, dst)\<close>, without the time stamps and permission bits it also copies.\<close>

definition copy2 :: "string \<Rightarrow> string \<Rightarrow> world \<Rightarrow> (exn + unit) \<times> world" where
  "copy2 src dst w =
     (let dst' = (if isdir (disk w) dst then os_path_join dst (basename src) else dst)
      in case read_file (disk w) src of
           Inl e \<Rightarrow> (Inl e, w)
         | Inr content \<Rightarrow> on_fs (write_file dst' content) w)"


section \<open>The extraction pipeline (docs_grabber.py, \<open>DocsGrabberThread.run\<close>)\<close>

text \<open>
  What the run takes from outside: the directory \<open>tempfile.mkdtemp()\<close> makes and returns,
  what \<open>git clone --branch b url dir\<close> does (its error output when it fails, else the
  entries it puts into the directory), and the time of day as \<open>strftime\<close> prints it.
\<close>

record env =
  mkdtemp :: string
  git_clone :: "string \<Rightarrow> string \<Rightarrow> string + (string \<times> node) list"
  now :: string

text \<open>An optional string inside an f-string.\<close>

definition fstr :: "string option \<Rightarrow> string" where
  "fstr x = (case x of None \<Rightarrow> ''None'' | Some s \<Rightarrow> s)"

text \<open>Lines 97 to 104: the copy when the filter mode is \<open>none\<close>.\<close>

fun copy_items :: "string \<Rightarrow> string \<Rightarrow> string list \<Rightarrow> world \<Rightarrow> (exn + unit) \<times> world" where
  "copy_items source_dir reference_dir [] w = (Inr (), w)"
| "copy_items source_dir reference_dir (item # items) w =
     (if item \<noteq> ''.git''
      then (let source = os_path_join source_dir item;
                destination = os_path_join reference_dir item
            in and_then (if isdir (disk w) source then copytree source destination w
                     else copy2 source destination w)
                 (\<lambda>u. copy_items source_dir reference_dir items))
      else copy_items source_dir reference_dir items w)"

definition copy_all :: "string \<Rightarrow> string \<Rightarrow> world \<Rightarrow> (exn + unit) \<times> world" where
  "copy_all source_dir reference_dir w =
     (case listdir (disk w) source_dir of
        Inl e \<Rightarrow> (Inl e, w)
      | Inr items \<Rightarrow> copy_items source_dir reference_dir items w)"

text \<open>Lines 94 to 113: the copy phase.\<close>

definition filter_description :: "string \<Rightarrow> string" where
  "filter_description filter_mode =
     (if filter_mode = ''markdown_only'' then ''markdown files only''
      else if filter_mode = ''exclude_code'' then ''non-code files''
      else if filter_mode = ''light_filter'' then ''documentation files (excluding binaries)''
      else ''files'')"

definition copy_phase :: "string \<Rightarrow> string \<Rightarrow> string \<Rightarrow> world \<Rightarrow> (exn + unit) \<times> world" where
  "copy_phase filter_mode source_dir reference_dir w =
     (if filter_mode = ''none''
      then copy_all source_dir reference_dir (emit (Status ''Copying all documentation files...'') w)
      else and_then (filter_files source_dir reference_dir filter_mode
                   (emit (Status (''Filtering and copying '' @ filter_description filter_mode @ ''...'')) w))
             (\<lambda>copied_files w'. (Inr (), w')))"

text \<open>Lines 86 to 89: the reference directory is removed if it is there, and made anew.\<close>

definition prepare_reference :: "string \<Rightarrow> world \<Rightarrow> (exn + unit) \<times> world" where
  "prepare_reference reference_dir w =
     and_then (if path_exists (disk w) reference_dir then on_fs (rmtree reference_dir) w else (Inr (), w))
       (\<lambda>u. on_fs (makedirs reference_dir))"

text \<open>Lines 118 to 138: the instructions file.\<close>

definition ai_instructions :: "string \<Rightarrow> string \<Rightarrow> string \<Rightarrow> string" where
  "ai_instructions display_repo_name current_time repo_url =
     ''# AI Instructions: Documentation Context Folder'' @ [CHR 0x0A, CHR 0x0A]
     @ ''This folder contains documentation for the following Github repository: ''
     @ display_repo_name @ ''.'' @ [CHR 0x0A, CHR 0x0A]
     @ ''It is intended to provide you with context on how this SDK or utility operates. ''
     @ ''Do not edit the documentation in this folder or its recursive paths.'' @ [CHR 0x0A, CHR 0x0A]
     @ ''It was imported from the internet on: '' @ current_time @ ''.'' @ [CHR 0x0A, CHR 0x0A]
     @ ''The original URL was '' @ repo_url @ [CHR 0x0A]"

definition write_instructions :: "env \<Rightarrow> string \<Rightarrow> string \<Rightarrow> url_parts \<Rightarrow> world \<Rightarrow> (exn + unit) \<times> world" where
  "write_instructions e repo_url target_path parts w =
     (let specific_path = subdir_path parts;
          display_repo_name =
            fstr (owner parts) @ ''/'' @ fstr (repo_name parts)
            @ (if specific_path \<noteq> [] then '' (path: '' @ specific_path @ '')'' else []);
          ai_instructions_path = os_path_join target_path ''ai-instructions.md''
      in on_fs (write_file ai_instructions_path (ai_instructions display_repo_name (now e) repo_url)) w)"

text \<open>
  Lines 74 to 145, after a clone that succeeded. The result \<open>Inr ()\<close> is a normal return,
  also one taken early.
\<close>

definition after_clone :: "env \<Rightarrow> string \<Rightarrow> string \<Rightarrow> string \<Rightarrow> url_parts \<Rightarrow> world \<Rightarrow> (exn + unit) \<times> world" where
  "after_clone e repo_url target_path filter_mode parts w =
     (let temp_dir = mkdtemp e;
          specific_path = subdir_path parts;
          w1 = emit (Status ''Processing files...'') (emit (Progress 40) w);
          source_dir = (if specific_path \<noteq> [] then os_path_join temp_dir specific_path else temp_dir)
      in if specific_path \<noteq> [] \<and> \<not> path_exists (disk w1) source_dir
         then (Inr (), emit (Finished False (''Specified path '' @ [CHR 0x27] @ specific_path @ [CHR 0x27]
                                               @ '' not found in repository'') []) w1)
         else
           (let reference_dir = os_path_join target_path ''reference''
            in and_then (prepare_reference reference_dir w1) (\<lambda>u w2.
               and_then (copy_phase filter_mode source_dir reference_dir (emit (Progress 60) w2)) (\<lambda>u w3.
               and_then (write_instructions e repo_url target_path parts
                       (emit (Status ''Creating AI instructions file...'') (emit (Progress 80) w3))) (\<lambda>u w4.
               and_then (on_fs (rmtree temp_dir) w4) (\<lambda>u w5.
                 (Inr (), emit (Finished True ''Documentation successfully grabbed!'' reference_dir)
                            (emit (Status ''Documentation successfully grabbed!'')
                               (emit (Progress 100) w5)))))))))"

text \<open>Lines 35 to 72: the body of the \<open>try\<close> block up to the clone.\<close>

definition run_body :: "env \<Rightarrow> string \<Rightarrow> string \<Rightarrow> string \<Rightarrow> world \<Rightarrow> (exn + unit) \<times> world" where
  "run_body e repo_url target_path filter_mode w =
     (let temp_dir = mkdtemp e
      in and_then (on_fs (mkdir temp_dir) w) (\<lambda>u w1.
           (let w2 = emit (Progress 10) (emit (Status ''Cloning repository...'') w1)
            in case parse_url repo_url of
                 None \<Rightarrow> (Inr (), emit (Finished False ''Invalid GitHub URL format'' []) w2)
               | Some parts \<Rightarrow>
                   (let clone_url = ''https://github.com/'' @ fstr (owner parts) @ ''/''
                                      @ fstr (repo_name parts) @ ''.git''
                    in case git_clone e (branch parts) clone_url of
                         Inl stderr \<Rightarrow> (Inr (), emit (Finished False (''Git clone failed: '' @ stderr) []) w2)
                       | Inr entries \<Rightarrow>
                           and_then (on_fs (put_tree temp_dir (Dir entries)) w2)
                             (\<lambda>u. after_clone e repo_url target_path filter_mode parts)))))"

text \<open>Lines 33 to 148: \<open>run\<close>, with its \<open>except Exception\<close>.\<close>

definition run :: "env \<Rightarrow> string \<Rightarrow> string \<Rightarrow> string \<Rightarrow> world \<Rightarrow> world" where
  "run e repo_url target_path filter_mode w =
     (case run_body e repo_url target_path filter_mode w of
        (Inl ex, w') \<Rightarrow> emit (Finished False (''Error: '' @ str_exn ex) []) w'
      | (Inr u, w') \<Rightarrow> w')"


section \<open>Example runs\<close>

text \<open>
  A machine with an empty \<open>/tmp\<close> and an empty target directory \<open>/home/ctx\<close>, on which
  nothing has been printed or emitted yet.
\<close>

definition machine :: node where
  "machine = Dir [(''tmp'', Dir []), (''home'', Dir [(''ctx'', Dir [])])]"

definition idle :: world where
  "idle = \<lparr>disk = machine, stdout = [], signals = []\<rparr>"

text \<open>Two repositories as \<open>git clone\<close> leaves them; in the second, \<open>a.md\<close> cannot be read.\<close>

definition widgets :: "(string \<times> node) list" where
  "widgets = [(''.git'', Dir [(''HEAD'', File True ''ref: refs/heads/main'')]),
              (''README.md'', File True ''# Widgets''),
              (''dist'', Dir [(''docs'', Dir [(''guide.md'', File True ''# Guide'')])])]"

definition handbook :: "(string \<times> node) list" where
  "handbook = [(''a.md'', File False ''A''), (''b.md'', File True ''B'')]"

text \<open>
  The surroundings of a run: \<open>mkdtemp\<close> answers \<open>temp_dir\<close>, and \<open>git clone\<close> ends as
  \<open>cloned\<close> says, whatever the branch and the URL.
\<close>

definition session :: "string \<Rightarrow> string + (string \<times> node) list \<Rightarrow> env" where
  "session temp_dir cloned =
     \<lparr>mkdtemp = temp_dir, git_clone = (\<lambda>b url. cloned), now = ''2025-01-01 12:00:00''\<rparr>"



section \<open>Properties of the classifiers\<close>

lemma str_in_sublist: "str_in p s = sublist p s"
  by (induction s) (auto simp: sublist_Cons_right)

lemma lower_char_pair:
  "(a, b) \<in> set (zip ascii_uppercase ascii_lowercase) \<Longrightarrow> lower_char a = b \<and> lower_char b = b"
  unfolding ascii_uppercase_def ascii_lowercase_def
  apply (simp only: zip_Cons_Cons zip_Nil set_simps insert_iff empty_iff Pair_inject)
  apply (elim disjE conjE FalseE)
  apply (simp_all add: lower_char_def ascii_uppercase_def ascii_lowercase_def)
  done

lemma same_letter_lower: "same_letter a b \<Longrightarrow> lower_char a = lower_char b"
  unfolding same_letter_def using lower_char_pair by metis

lemma case_variant_lower: "case_variant s t \<Longrightarrow> lower s = lower t"
  unfolding case_variant_def lower_def
  by (induction s t rule: list_all2_induct) (simp_all add: same_letter_lower)

lemmas eval_case_variant = case_variant_def same_letter_def ascii_uppercase_def ascii_lowercase_def

lemmas eval_lower = lower_def lower_char_def ascii_uppercase_def ascii_lowercase_def

lemmas eval_endswith = endswith_def suffix_to_prefix

text \<open>
  C4. The claim: each of the three classifiers gives the same result on any two paths that
  differ only in the case of their letters, for the extension checks and for the
  generated-directory check. The check for a generated directory looks for the fragments
  in the path as it is written, so it tells \<open>build/a.md\<close> from \<open>Build/a.md\<close>.
\<close>

theorem generated_check_case_sensitive:
  "case_variant ''Build/a.md'' ''build/a.md''
     \<and> \<not> is_binary_or_generated_file ''Build/a.md''
     \<and> is_binary_or_generated_file ''build/a.md''"
proof -
  have "case_variant ''Build/a.md'' ''build/a.md''"
    by (simp add: eval_case_variant)
  moreover have "\<not> is_binary ''Build/a.md''"
    by (simp add: is_binary_def binary_extensions_def eval_endswith eval_lower)
  moreover have "\<not> is_generated ''Build/a.md''"
    by (simp add: is_generated_def generated_patterns_def)
  moreover have "is_generated ''build/a.md''"
    by (simp add: is_generated_def generated_patterns_def)
  ultimately show ?thesis
    by (simp add: is_binary_or_generated_file_def)
qed

text \<open>
  C4, as the code has it: \<open>is_markdown_file\<close> and \<open>is_code_file\<close> do not depend on the case
  of the letters of the path, and neither does the extension check of
  \<open>is_binary_or_generated_file\<close>; that function gives the same result on two case variants
  whenever its generated-directory check, which reads the path as written, agrees on them.
\<close>

theorem classifiers_case_insensitive:
  assumes "case_variant s t"
  shows "is_markdown_file s = is_markdown_file t
       \<and> is_code_file s = is_code_file t
       \<and> is_binary s = is_binary t
       \<and> (is_generated s = is_generated t
            \<longrightarrow> is_binary_or_generated_file s = is_binary_or_generated_file t)"
proof -
  from assms have "lower s = lower t" by (rule case_variant_lower)
  then show ?thesis
    by (simp add: is_markdown_file_def is_code_file_def is_binary_def is_binary_or_generated_file_def)
qed

theorem classifiers_case_insensitive_witness:
  "is_markdown_file ''Docs/README.MD'' = is_markdown_file ''docs/readme.md''
     \<and> is_code_file ''Docs/README.MD'' = is_code_file ''docs/readme.md''
     \<and> is_binary ''Docs/README.MD'' = is_binary ''docs/readme.md''
     \<and> is_binary_or_generated_file ''Docs/README.MD'' = is_binary_or_generated_file ''docs/readme.md''"
proof -
  have v: "case_variant ''Docs/README.MD'' ''docs/readme.md''"
    by (simp add: eval_case_variant)
  have g: "is_generated ''Docs/README.MD'' = is_generated ''docs/readme.md''"
    by (simp add: is_generated_def generated_patterns_def)
  from classifiers_case_insensitive [OF v] g show ?thesis by blast
qed


section \<open>Properties of the URL parser\<close>

lemma plus_matches_hd:
  "p c \<Longrightarrow> \<exists>ys. plus_matches p (c # cs) = dropWhile p (c # cs) # ys"
proof (induction cs arbitrary: c)
  case Nil
  then show ?case by simp
next
  case (Cons d ds)
  show ?case
  proof (cases "p d")
    case True
    from Cons.IH [OF True] obtain ys where "plus_matches p (d # ds) = dropWhile p (d # ds) # ys" ..
    with Cons.prems True show ?thesis by simp
  next
    case False
    with Cons.prems show ?thesis by simp
  qed
qed

lemma plus_matches_Nil: "plus_matches p s = [] \<longleftrightarrow> takeWhile p s = []"
  by (cases s) auto

lemma concat_plus_matches:
  assumes "\<And>c r. p c \<Longrightarrow> k (c # r) = []"
  shows "concat (map k (plus_matches p s)) = (if takeWhile p s = [] then [] else k (dropWhile p s))"
proof (induction s)
  case Nil
  show ?case by simp
next
  case (Cons c cs)
  show ?case
  proof (cases "p c")
    case False
    then show ?thesis by simp
  next
    case True
    show ?thesis
    proof (cases cs)
      case Nil
      with True show ?thesis by simp
    next
      case (Cons d ds)
      with True Cons.IH assms show ?thesis by (cases "p d") simp_all
    qed
  qed
qed

lemma take_takeWhile: "take (length s - length (dropWhile p s)) s = takeWhile p s"
proof -
  have "length s - length (dropWhile p s) = length (takeWhile p s)"
    by (metis add_diff_cancel_right' length_append takeWhile_dropWhile_id)
  then show ?thesis
    by (metis append_eq_conv_conj takeWhile_dropWhile_id)
qed

lemma matches_Lit_Seq:
  "matches (Seq (Lit l) R) s g = (if prefix l s then matches R (drop (length l) s) g else [])"
  by simp

text \<open>A slash-free segment followed by a slash has one way to match.\<close>

lemma matches_segment_slash:
  "matches (Seq (Group n (Many1 NotSlash)) (Seq (Lit ''/'') R)) s g =
     (if takeWhile (cls_ok NotSlash) s \<noteq> [] \<and> prefix ''/'' (dropWhile (cls_ok NotSlash) s)
      then matches R (tl (dropWhile (cls_ok NotSlash) s)) (g(n \<mapsto> takeWhile (cls_ok NotSlash) s))
      else [])"
proof -
  let ?p = "cls_ok NotSlash"
  let ?k = "\<lambda>s'. matches (Seq (Lit ''/'') R) s' (g(n \<mapsto> take (length s - length s') s))"
  have "matches (Seq (Group n (Many1 NotSlash)) (Seq (Lit ''/'') R)) s g = concat (map ?k (plus_matches ?p s))"
    by (simp only: matches.simps(2,3,5) map_map comp_def prod.case)
  also have "\<dots> = (if takeWhile ?p s = [] then [] else ?k (dropWhile ?p s))"
    by (rule concat_plus_matches) simp
  also have "\<dots> = (if takeWhile ?p s \<noteq> [] \<and> prefix ''/'' (dropWhile ?p s)
      then matches R (tl (dropWhile ?p s)) (g(n \<mapsto> takeWhile ?p s)) else [])"
    by (auto simp: take_takeWhile drop_Suc simp del: cls_ok.simps)
  finally show ?thesis .
qed

lemma matches_group_plus_hd:
  assumes "takeWhile (cls_ok k) s \<noteq> []"
  shows "\<exists>ys. matches (Group n (Many1 k)) s g = (dropWhile (cls_ok k) s, g(n \<mapsto> takeWhile (cls_ok k) s)) # ys"
proof -
  from assms obtain c cs where s: "s = c # cs" and c: "cls_ok k c"
    by (cases s) (auto split: if_splits)
  from plus_matches_hd [of "cls_ok k" c cs, OF c] s
  obtain ys where "plus_matches (cls_ok k) s = dropWhile (cls_ok k) s # ys" by auto
  then show ?thesis
    by (simp add: take_takeWhile del: cls_ok.simps)
qed

lemma matches_repo_tail_Nil:
  "matches (Seq (Group 2 (Many1 NotSlash)) (Opt T)) s g = [] \<longleftrightarrow> takeWhile (cls_ok NotSlash) s = []"
  by (auto simp add: plus_matches_Nil simp del: cls_ok.simps)

lemma matches_repo_tail_hd:
  assumes "takeWhile (cls_ok NotSlash) s \<noteq> []"
  shows "\<exists>ys. matches (Seq (Group 2 (Many1 NotSlash)) (Opt T)) s g =
     (case matches T (dropWhile (cls_ok NotSlash) s) (g(2 \<mapsto> takeWhile (cls_ok NotSlash) s)) of
        [] \<Rightarrow> (dropWhile (cls_ok NotSlash) s, g(2 \<mapsto> takeWhile (cls_ok NotSlash) s))
      | x # _ \<Rightarrow> x) # ys"
proof -
  from matches_group_plus_hd [OF assms, of 2 g] obtain ys where
    "matches (Group 2 (Many1 NotSlash)) s g =
       (dropWhile (cls_ok NotSlash) s, g(2 \<mapsto> takeWhile (cls_ok NotSlash) s)) # ys" ..
  then show ?thesis
    by (cases "matches T (dropWhile (cls_ok NotSlash) s) (g(2 \<mapsto> takeWhile (cls_ok NotSlash) s))")
       (simp_all del: matches.simps(2,5) cls_ok.simps)
qed

lemma matches_tree_part:
  "matches tree_part s g =
     (if prefix ''/tree/'' s \<and> takeWhile (cls_ok NotSlash) (drop (length ''/tree/'') s) \<noteq> []
          \<and> prefix ''/'' (dropWhile (cls_ok NotSlash) (drop (length ''/tree/'') s))
      then matches (Group 4 (Many1 Dot)) (tl (dropWhile (cls_ok NotSlash) (drop (length ''/tree/'') s)))
             (g(3 \<mapsto> takeWhile (cls_ok NotSlash) (drop (length ''/tree/'') s)))
      else [])"
  unfolding tree_part_def matches_Lit_Seq matches_segment_slash
  by (simp del: matches.simps cls_ok.simps)

lemma matches_github_url:
  "matches github_url s g =
     (if prefix ''github.com/'' s \<and> takeWhile (cls_ok NotSlash) (drop (length ''github.com/'') s) \<noteq> []
          \<and> prefix ''/'' (dropWhile (cls_ok NotSlash) (drop (length ''github.com/'') s))
      then matches (Seq (Group 2 (Many1 NotSlash)) (Opt tree_part))
             (tl (dropWhile (cls_ok NotSlash) (drop (length ''github.com/'') s)))
             (g(1 \<mapsto> takeWhile (cls_ok NotSlash) (drop (length ''github.com/'') s)))
      else [])"
  unfolding github_url_def matches_Lit_Seq matches_segment_slash
  by (simp del: matches.simps cls_ok.simps)

lemma match_at_None: "match_at r s = None \<longleftrightarrow> matches r s Map.empty = []"
  by (simp add: match_at_def split: list.splits)

lemma match_at_hd: "matches r s Map.empty = (s', g) # ys \<Longrightarrow> match_at r s = Some g"
  by (simp add: match_at_def)

lemma matches_github_url_Nil:
  "matches github_url s g = [] \<longleftrightarrow>
     \<not> (prefix ''github.com/'' s \<and> takeWhile (cls_ok NotSlash) (drop (length ''github.com/'') s) \<noteq> []
          \<and> prefix ''/'' (dropWhile (cls_ok NotSlash) (drop (length ''github.com/'') s))
          \<and> takeWhile (cls_ok NotSlash) (tl (dropWhile (cls_ok NotSlash) (drop (length ''github.com/'') s))) \<noteq> [])"
  by (simp only: matches_github_url matches_repo_tail_Nil split: if_splits) blast

lemma takeWhile_segment:
  "CHR ''/'' \<notin> set seg \<Longrightarrow> takeWhile (cls_ok NotSlash) (seg @ CHR ''/'' # rest) = seg"
  by (induction seg) auto

lemma dropWhile_segment:
  "CHR ''/'' \<notin> set seg \<Longrightarrow> dropWhile (cls_ok NotSlash) (seg @ CHR ''/'' # rest) = CHR ''/'' # rest"
  by (induction seg) auto

lemma takeWhile_all: "\<forall>c \<in> set seg. p c \<Longrightarrow> takeWhile p seg = seg"
  by (induction seg) auto

lemma dropWhile_all: "\<forall>c \<in> set seg. p c \<Longrightarrow> dropWhile p seg = []"
  by (induction seg) auto

lemma takeWhile_NotSlash_Nil:
  "takeWhile (cls_ok NotSlash) s \<noteq> [] \<longleftrightarrow> (\<exists>c rest. s = c # rest \<and> c \<noteq> CHR ''/'')"
  by (cases s) auto

text \<open>One attempt at a fixed position.\<close>

lemma match_at_github_iff:
  "match_at github_url s \<noteq> None \<longleftrightarrow>
     (\<exists>owner c rest. s = ''github.com/'' @ owner @ ''/'' @ c # rest \<and> owner \<noteq> []
        \<and> CHR ''/'' \<notin> set owner \<and> c \<noteq> CHR ''/'')"
proof
  let ?s1 = "drop (length ''github.com/'') s"
  let ?o = "takeWhile (cls_ok NotSlash) ?s1"
  let ?s2 = "dropWhile (cls_ok NotSlash) ?s1"
  assume "match_at github_url s \<noteq> None"
  then have p: "prefix ''github.com/'' s" and o: "?o \<noteq> []" and sl: "prefix ''/'' ?s2"
    and r: "takeWhile (cls_ok NotSlash) (tl ?s2) \<noteq> []"
    unfolding match_at_None matches_github_url_Nil by blast+
  from p obtain s1 where s: "s = ''github.com/'' @ s1" by (rule prefixE)
  then have s1: "?s1 = s1" by simp
  have s1': "s1 = ?o @ ?s2" unfolding s1 by simp
  from sl obtain t where s2: "?s2 = ''/'' @ t" by (rule prefixE)
  from r s2 obtain c rest where t: "t = c # rest" and c: "c \<noteq> CHR ''/''"
    unfolding takeWhile_NotSlash_Nil by auto
  have "CHR ''/'' \<notin> set ?o" by (auto dest: set_takeWhileD)
  moreover have "s = ''github.com/'' @ ?o @ ''/'' @ c # rest"
    by (subst s, subst s1', subst s2, subst t) (rule refl)
  ultimately show "\<exists>owner c rest. s = ''github.com/'' @ owner @ ''/'' @ c # rest \<and> owner \<noteq> []
        \<and> CHR ''/'' \<notin> set owner \<and> c \<noteq> CHR ''/''"
    using o c by blast
next
  assume "\<exists>owner c rest. s = ''github.com/'' @ owner @ ''/'' @ c # rest \<and> owner \<noteq> []
        \<and> CHR ''/'' \<notin> set owner \<and> c \<noteq> CHR ''/''"
  then obtain owner c rest where s: "s = ''github.com/'' @ owner @ ''/'' @ c # rest"
    and o: "owner \<noteq> []" "CHR ''/'' \<notin> set owner" and c: "c \<noteq> CHR ''/''" by blast
  have d: "drop (length ''github.com/'') s = owner @ CHR ''/'' # c # rest" using s by simp
  have "matches github_url s Map.empty \<noteq> []"
    unfolding matches_github_url_Nil d takeWhile_segment [OF o(2)] dropWhile_segment [OF o(2)]
    using o c s by simp
  then show "match_at github_url s \<noteq> None"
    by (simp add: match_at_None)
qed

lemma re_search_iff:
  "re_search r s \<noteq> None \<longleftrightarrow> (\<exists>pre suf. s = pre @ suf \<and> match_at r suf \<noteq> None)"
proof (induction s)
  case Nil
  show ?case by simp
next
  case (Cons c cs)
  show ?case
  proof (cases "match_at r (c # cs)")
    case (Some g)
    then have "c # cs = [] @ c # cs \<and> match_at r (c # cs) \<noteq> None" by simp
    then have "\<exists>pre suf. c # cs = pre @ suf \<and> match_at r suf \<noteq> None" by blast
    with Some show ?thesis by simp
  next
    case None
    have "(\<exists>pre suf. c # cs = pre @ suf \<and> match_at r suf \<noteq> None) \<longleftrightarrow>
          (\<exists>pre suf. cs = pre @ suf \<and> match_at r suf \<noteq> None)"
    proof
      assume "\<exists>pre suf. c # cs = pre @ suf \<and> match_at r suf \<noteq> None"
      then obtain pre suf where e: "c # cs = pre @ suf" and m: "match_at r suf \<noteq> None" by blast
      show "\<exists>pre suf. cs = pre @ suf \<and> match_at r suf \<noteq> None"
      proof (cases pre)
        case Nil
        with e m None show ?thesis by simp
      next
        case (Cons d ds)
        with e have "cs = ds @ suf" by simp
        with m show ?thesis by blast
      qed
    next
      assume "\<exists>pre suf. cs = pre @ suf \<and> match_at r suf \<noteq> None"
      then obtain pre suf where "cs = pre @ suf" and m: "match_at r suf \<noteq> None" by blast
      then have "c # cs = (c # pre) @ suf" by simp
      with m show "\<exists>pre suf. c # cs = pre @ suf \<and> match_at r suf \<noteq> None" by blast
    qed
    with None Cons.IH show ?thesis by simp
  qed
qed

lemma parse_url_None: "parse_url url = None \<longleftrightarrow> re_search github_url url = None"
  by (simp add: parse_url_def split: option.splits)

text \<open>
  C2. The claim: the parse step succeeds only for a URL whose scheme is \<open>http://\<close> or
  \<open>https://\<close> and whose host is exactly \<open>github.com\<close>. The search looks for
  \<open>github.com/owner/repo\<close> anywhere in the string, so a URL with another scheme and a host
  that merely ends in \<open>github.com\<close> is parsed.
\<close>

theorem parse_url_no_scheme_check:
  "\<not> startswith ''ftp://notgithub.com/acme/widgets'' ''http://''
     \<and> \<not> startswith ''ftp://notgithub.com/acme/widgets'' ''https://''
     \<and> parse_url ''ftp://notgithub.com/acme/widgets''
           = Some \<lparr>owner = Some ''acme'', repo_name = Some ''widgets'', branch = ''main'', subdir_path = []\<rparr>"
  by (simp add: startswith_def parse_url_def github_url_def tree_part_def match_at_def or_else_def)

text \<open>
  C2, as the code has it: the parse step succeeds exactly when the string contains, at any
  position, \<open>github.com/\<close> followed by an owner of one or more characters other than
  \<open>/\<close>, a \<open>/\<close> and one more character other than \<open>/\<close>; every other string
  is answered with "Invalid GitHub URL format". Neither the scheme nor what stands before
  \<open>github.com\<close> is looked at.
\<close>

theorem parse_url_accepts_iff:
  "parse_url url \<noteq> None \<longleftrightarrow>
     (\<exists>pre owner c rest. url = pre @ ''github.com/'' @ owner @ ''/'' @ c # rest \<and> owner \<noteq> []
        \<and> CHR ''/'' \<notin> set owner \<and> c \<noteq> CHR ''/'')"
  unfolding parse_url_None re_search_iff match_at_github_iff by blast
theorem parse_url_accepts_iff_witness:
  "parse_url ''http://github.com/acme/widgets'' \<noteq> None"
proof -
  have "''http://github.com/acme/widgets'' = ''http://'' @ ''github.com/'' @ ''acme'' @ ''/'' @ CHR ''w'' # ''idgets''
      \<and> ''acme'' \<noteq> [] \<and> CHR ''/'' \<notin> set ''acme'' \<and> CHR ''w'' \<noteq> CHR ''/''"
    by simp
  then have "\<exists>pre own c rest. ''http://github.com/acme/widgets'' = pre @ ''github.com/'' @ own @ ''/'' @ c # rest
      \<and> own \<noteq> [] \<and> CHR ''/'' \<notin> set own \<and> c \<noteq> CHR ''/''"
    by blast
  then show ?thesis
    using parse_url_accepts_iff [of "''http://github.com/acme/widgets''"] by blast
qed

lemma parse_url_example_com: "parse_url ''https://example.com/acme/widgets'' = None"
  by (simp add: parse_url_def github_url_def tree_part_def match_at_def)

lemma match_at_not_g: "c \<noteq> CHR ''g'' \<Longrightarrow> match_at github_url (c # s) = None"
  unfolding match_at_None matches_github_url_Nil by simp

lemma re_search_hd: "match_at r s = Some g \<Longrightarrow> re_search r s = Some g"
  by (cases s) simp_all

lemma re_search_https:
  "re_search github_url (''https://'' @ s) = re_search github_url s"
  by (simp add: match_at_not_g)

lemma match_at_plain:
  assumes "own \<noteq> []" "CHR ''/'' \<notin> set own" "repo \<noteq> []" "CHR ''/'' \<notin> set repo"
  shows "match_at github_url (''github.com/'' @ own @ ''/'' @ repo)
           = Some [1 \<mapsto> own, 2 \<mapsto> repo]"
proof -
  let ?s = "''github.com/'' @ own @ ''/'' @ repo"
  have d: "drop (length ''github.com/'') ?s = own @ CHR ''/'' # repo" by simp
  have r: "takeWhile (cls_ok NotSlash) repo = repo" "dropWhile (cls_ok NotSlash) repo = []"
    using assms(4) by (auto intro!: takeWhile_all dropWhile_all)
  have t: "matches tree_part [] g = []" for g
    by (simp add: matches_tree_part)
  from matches_repo_tail_hd [of repo tree_part "[1 \<mapsto> own]"] assms(3) r
  obtain ys where "matches (Seq (Group 2 (Many1 NotSlash)) (Opt tree_part)) repo [1 \<mapsto> own]
      = ([], [1 \<mapsto> own, 2 \<mapsto> repo]) # ys"
    by (auto simp: t simp del: matches.simps)
  then have "matches github_url ?s Map.empty = ([], [1 \<mapsto> own, 2 \<mapsto> repo]) # ys"
    unfolding matches_github_url d takeWhile_segment [OF assms(2)] dropWhile_segment [OF assms(2)]
    using assms(1) by simp
  then show ?thesis by (rule match_at_hd)
qed

lemma match_at_tree:
  assumes "own \<noteq> []" "CHR ''/'' \<notin> set own" "repo \<noteq> []" "CHR ''/'' \<notin> set repo"
    and "br \<noteq> []" "CHR ''/'' \<notin> set br" "subpath \<noteq> []" "CHR 0x0A \<notin> set subpath"
  shows "match_at github_url (''github.com/'' @ own @ ''/'' @ repo @ ''/tree/'' @ br @ ''/'' @ subpath)
           = Some [1 \<mapsto> own, 2 \<mapsto> repo, 3 \<mapsto> br, 4 \<mapsto> subpath]"
proof -
  let ?t = "''/tree/'' @ br @ ''/'' @ subpath"
  let ?s = "''github.com/'' @ own @ ''/'' @ repo @ ?t"
  let ?g2 = "[1 \<mapsto> own, 2 \<mapsto> repo]"
  have d: "drop (length ''github.com/'') ?s = own @ CHR ''/'' # (repo @ ?t)" by simp
  have t: "repo @ ?t = repo @ CHR ''/'' # (''tree/'' @ br @ ''/'' @ subpath)" by simp
  have r: "takeWhile (cls_ok NotSlash) (repo @ ?t) = repo" "dropWhile (cls_ok NotSlash) (repo @ ?t) = ?t"
    unfolding t using takeWhile_segment [OF assms(4)] dropWhile_segment [OF assms(4)]
    by (simp_all del: cls_ok.simps)
  have d2: "drop (length ''/tree/'') ?t = br @ CHR ''/'' # subpath" by simp
  have sp: "takeWhile (cls_ok Dot) subpath = subpath" "dropWhile (cls_ok Dot) subpath = []"
    using assms(8) by (auto intro!: takeWhile_all dropWhile_all)
  from matches_group_plus_hd [of Dot subpath 4 "?g2(3 \<mapsto> br)"] assms(7) sp
  obtain zs where "matches (Group 4 (Many1 Dot)) subpath (?g2(3 \<mapsto> br)) = ([], ?g2(3 \<mapsto> br, 4 \<mapsto> subpath)) # zs"
    by (auto simp del: matches.simps)
  then have tp: "matches tree_part ?t ?g2 = ([], ?g2(3 \<mapsto> br, 4 \<mapsto> subpath)) # zs"
    unfolding matches_tree_part d2 takeWhile_segment [OF assms(6)] dropWhile_segment [OF assms(6)]
    using assms(5) by simp
  from matches_repo_tail_hd [of "repo @ ?t" tree_part "[1 \<mapsto> own]"] assms(3) 
  obtain ys where "matches (Seq (Group 2 (Many1 NotSlash)) (Opt tree_part)) (repo @ ?t) [1 \<mapsto> own]
      = ([], ?g2(3 \<mapsto> br, 4 \<mapsto> subpath)) # ys"
    unfolding r tp by auto
  then have "matches github_url ?s Map.empty = ([], ?g2(3 \<mapsto> br, 4 \<mapsto> subpath)) # ys"
    unfolding matches_github_url d takeWhile_segment [OF assms(2)] dropWhile_segment [OF assms(2)]
    using assms(1) by simp
  then show ?thesis by (rule match_at_hd)
qed

text \<open>
  C3. A URL \<open>https://github.com/{owner}/{repo}\<close> parses to the branch \<open>main\<close> and the
  empty subpath, and a URL \<open>https://github.com/{owner}/{repo}/tree/{branch}/{subpath}\<close>
  parses to that branch and the whole subpath, slashes included. Owner, repository and
  branch are path segments (not empty, no \<open>/\<close>); the subpath is not empty and, as in any
  URL, has no line feed.
\<close>

theorem parse_url_forms:
  assumes "own \<noteq> []" "CHR ''/'' \<notin> set own" "repo \<noteq> []" "CHR ''/'' \<notin> set repo"
    and "br \<noteq> []" "CHR ''/'' \<notin> set br" "subpath \<noteq> []" "CHR 0x0A \<notin> set subpath"
  shows "parse_url (''https://github.com/'' @ own @ ''/'' @ repo)
           = Some \<lparr>owner = Some own, repo_name = Some repo, branch = ''main'', subdir_path = []\<rparr>
       \<and> parse_url (''https://github.com/'' @ own @ ''/'' @ repo @ ''/tree/'' @ br @ ''/'' @ subpath)
           = Some \<lparr>owner = Some own, repo_name = Some repo, branch = br, subdir_path = subpath\<rparr>"
proof -
  have a: "''https://github.com/'' @ s = ''https://'' @ ''github.com/'' @ s" for s by simp
  have "re_search github_url (''https://github.com/'' @ own @ ''/'' @ repo) = Some [1 \<mapsto> own, 2 \<mapsto> repo]"
    unfolding a re_search_https using assms(1-4) by (intro re_search_hd match_at_plain)
  moreover have "re_search github_url (''https://github.com/'' @ own @ ''/'' @ repo @ ''/tree/'' @ br @ ''/'' @ subpath)
      = Some [1 \<mapsto> own, 2 \<mapsto> repo, 3 \<mapsto> br, 4 \<mapsto> subpath]"
    unfolding a re_search_https using assms by (intro re_search_hd match_at_tree)
  ultimately show ?thesis
    using assms(5,7) by (simp add: parse_url_def or_else_def)
qed

theorem parse_url_forms_witness:
  "parse_url ''https://github.com/acme/widgets''
           = Some \<lparr>owner = Some ''acme'', repo_name = Some ''widgets'', branch = ''main'', subdir_path = []\<rparr>
       \<and> parse_url ''https://github.com/acme/widgets/tree/dev/docs/api''
           = Some \<lparr>owner = Some ''acme'', repo_name = Some ''widgets'', branch = ''dev'', subdir_path = ''docs/api''\<rparr>"
  using parse_url_forms [of "''acme''" "''widgets''" "''dev''" "''docs/api''"] by simp


section \<open>Runs of the pipeline\<close>

text \<open>
  C1. The claim: the temporary directory made at the start of \<open>run\<close> is deleted on every
  way out. \<open>shutil.rmtree(temp_dir)\<close> stands only at the end of the \<open>try\<close> block (line
  141), after the instructions file is written: the three early returns and the
  \<open>except\<close> branch leave the directory where it is. Below, a URL that does not parse, a
  clone that fails, a subpath that is not in the repository and a copy that raises; each
  time the run ends with \<open>finished_signal(False, ...)\<close> and the directory, with what was
  cloned into it, is still there.
\<close>

theorem workspace_left_on_failure:
  "(let w = run (session ''/tmp/tmpk3v9q2ab'' (Inr widgets))
              ''https://example.com/acme/widgets'' ''/home/ctx'' ''none'' idle
    in isdir (disk w) ''/tmp/tmpk3v9q2ab''
       \<and> signals w = [Status ''Cloning repository...'', Progress 10,
                       Finished False ''Invalid GitHub URL format'' []])
   \<and> (let w = run (session ''/tmp/tmpk3v9q2ab'' (Inl ''fatal: repository not found''))
                ''https://github.com/acme/widgets'' ''/home/ctx'' ''none'' idle
      in isdir (disk w) ''/tmp/tmpk3v9q2ab''
         \<and> last (signals w) = Finished False ''Git clone failed: fatal: repository not found'' [])
   \<and> (let w = run (session ''/tmp/tmpk3v9q2ab'' (Inr widgets))
                ''https://github.com/acme/widgets/tree/main/manual'' ''/home/ctx'' ''none'' idle
      in isfile (disk w) ''/tmp/tmpk3v9q2ab/README.md''
         \<and> last (signals w) = Finished False ''Specified path 'manual' not found in repository'' [])
   \<and> (let w = run (session ''/tmp/tmpk3v9q2ab'' (Inr handbook))
                ''https://github.com/acme/widgets'' ''/home/ctx'' ''none'' idle
      in isfile (disk w) ''/tmp/tmpk3v9q2ab/b.md''
         \<and> last (signals w) = Finished False ''Error: [Errno 13] Permission denied'' [])"
  by code_simp

text \<open>A run that succeeds does delete it.\<close>

lemma workspace_deleted_on_success:
  "(let w = run (session ''/tmp/tmpk3v9q2ab'' (Inr widgets))
              ''https://github.com/acme/widgets'' ''/home/ctx'' ''none'' idle
    in lookup (disk w) [''tmp''] = Some (Dir [])
       \<and> last (signals w) = Finished True ''Documentation successfully grabbed!'' ''/home/ctx/reference'')"
  by code_simp

text \<open>
  C5. The claim: under \<open>light_filter\<close> the decision for a file is taken from its path
  relative to the source directory, so that nothing above the source directory has a say.
  \<open>filter_files\<close> hands \<open>source_file\<close>, which is \<open>os.path.join(root, file)\<close> and starts
  with the temporary directory and the subpath of the URL, to
  \<open>is_binary_or_generated_file\<close> (line 164). For the URL
  \<open>https://github.com/acme/widgets/tree/main/dist/docs\<close> the source directory is
  \<open>/tmp/tmpk3v9q2ab/dist/docs\<close>; its one file \<open>guide.md\<close>, whose relative path passes the
  check, is left out because \<open>dist\<close> stands in the path above it, and the run reports
  success with an empty \<open>reference\<close> directory.
\<close>

theorem light_filter_reads_absolute_path:
  "\<not> is_binary_or_generated_file ''guide.md''
   \<and> is_binary_or_generated_file ''/tmp/tmpk3v9q2ab/dist/docs/guide.md''
   \<and> (let w = run (session ''/tmp/tmpk3v9q2ab'' (Inr widgets))
                ''https://github.com/acme/widgets/tree/main/dist/docs'' ''/home/ctx'' ''light_filter'' idle
      in lookup (disk w) [''home'', ''ctx'', ''reference''] = Some (Dir [])
         \<and> last (signals w) = Finished True ''Documentation successfully grabbed!'' ''/home/ctx/reference'')"
  by code_simp

text \<open>
  C8. The claim: in every filter mode a file that cannot be copied is logged and skipped,
  the other files are still copied and the instructions file is still written. In the
  mode \<open>none\<close> the files are copied by \<open>shutil.copy2\<close> and \<open>shutil.copytree\<close> (lines 97
  to 104) with no \<open>try\<close> around them: the exception of the first file that cannot be read
  ends the run in the \<open>except\<close> branch of \<open>run\<close>. With \<open>a.md\<close> unreadable, \<open>b.md\<close> is
  not copied and no instructions file is written.
\<close>

theorem copy_all_aborts_on_unreadable_file:
  "(let w = run (session ''/tmp/tmpk3v9q2ab'' (Inr handbook))
              ''https://github.com/acme/widgets'' ''/home/ctx'' ''none'' idle
    in lookup (disk w) [''home'', ''ctx''] = Some (Dir [(''reference'', Dir [])])
       \<and> stdout w = []
       \<and> last (signals w) = Finished False ''Error: [Errno 13] Permission denied'' [])"
  by code_simp

text \<open>
  In the other modes \<open>filter_files\<close> does the copying, and its \<open>try\<close> block does what
  the claim says: on the same repository \<open>a.md\<close> is logged, \<open>b.md\<close> is copied and the
  instructions file is written.
\<close>

lemma filter_files_skips_unreadable_file:
  "(let w = run (session ''/tmp/tmpk3v9q2ab'' (Inr handbook))
              ''https://github.com/acme/widgets'' ''/home/ctx'' ''exclude_code'' idle
    in lookup (disk w) [''home'', ''ctx'', ''reference''] = Some (Dir [(''b.md'', File True ''B'')])
       \<and> isfile (disk w) ''/home/ctx/ai-instructions.md''
       \<and> stdout w = [''Error copying /tmp/tmpk3v9q2ab/a.md: [Errno 13] Permission denied'']
       \<and> last (signals w) = Finished True ''Documentation successfully grabbed!'' ''/home/ctx/reference'')"
  by code_simp

text \<open>
  C9. The claim: two runs with the same URL, target path, filter mode and fetched tree
  leave the same \<open>reference\<close> tree. Under \<open>light_filter\<close> the path that is checked starts
  with the directory \<open>tempfile.mkdtemp()\<close> has made, whose name is \<open>tmp\<close> and eight
  characters drawn at random from the letters, the digits and \<open>_\<close>. When the name happens
  to contain one of the fragments (\<open>bin\<close>, \<open>out\<close>, \<open>obj\<close>, ...), no file passes. The
  first run below copies \<open>README.md\<close>; the second, into the same target and with every
  input the same, copies nothing.
\<close>

theorem light_filter_depends_on_workspace_name:
  "(let w1 = run (session ''/tmp/tmpk3v9q2ab'' (Inr widgets))
               ''https://github.com/acme/widgets'' ''/home/ctx'' ''light_filter'' idle;
        w2 = run (session ''/tmp/tmpk3vbin2b'' (Inr widgets))
               ''https://github.com/acme/widgets'' ''/home/ctx'' ''light_filter'' w1
    in lookup (disk w1) [''home'', ''ctx'', ''reference'']
         = Some (Dir [(''README.md'', File True ''# Widgets''), (''.git'', Dir []),
                      (''dist'', Dir [(''docs'', Dir [])])])
       \<and> lookup (disk w2) [''home'', ''ctx'', ''reference'']
         = Some (Dir [(''.git'', Dir []), (''dist'', Dir [(''docs'', Dir [])])])
       \<and> last (signals w1) = Finished True ''Documentation successfully grabbed!'' ''/home/ctx/reference''
       \<and> last (signals w2) = Finished True ''Documentation successfully grabbed!'' ''/home/ctx/reference'')"
  by code_simp

end
